theory Spec2Isabelle
  imports Complex_Main "HOL-Library.Word"
begin

section \<open>Strings, errors and HTTP responses\<close>

text \<open>
  A JavaScript string is a sequence of UTF-16 code units. Literals of the source are written
  with \<open>js\<close>, which maps each character of a HOL string literal to its code unit.
\<close>

type_synonym jsstring = "16 word list"

definition js :: "string \<Rightarrow> jsstring" where
  "js s = map (\<lambda>c. of_nat (of_char c)) s"

text \<open>
  \<open>String.prototype.trim\<close> removes the WhiteSpace and LineTerminator code points of
  ECMAScript from both ends: TAB, LF, VT, FF, CR, SPACE, NBSP, U+1680, U+2000..U+200A,
  U+2028, U+2029, U+202F, U+205F, U+3000 and U+FEFF.
\<close>

definition isWhiteSpace :: "16 word \<Rightarrow> bool" where
  "isWhiteSpace c \<longleftrightarrow>
     c = 0x09 \<or> c = 0x0A \<or> c = 0x0B \<or> c = 0x0C \<or> c = 0x0D \<or> c = 0x20 \<or> c = 0xA0 \<or>
     c = 0x1680 \<or> (0x2000 \<le> c \<and> c \<le> 0x200A) \<or> c = 0x2028 \<or> c = 0x2029 \<or>
     c = 0x202F \<or> c = 0x205F \<or> c = 0x3000 \<or> c = 0xFEFF"

definition trim :: "jsstring \<Rightarrow> jsstring" where
  "trim s = rev (dropWhile isWhiteSpace (rev (dropWhile isWhiteSpace s)))"

text \<open>
  The errors the source throws, one constructor per \<open>throw\<close> site, and the failures of the
  library calls it awaits: a \<open>fetch\<close> that rejects, a response body that is not JSON, an
  \<open>error\<close> event of the download stream, a \<open>writeFileSync\<close> that throws.
\<close>

datatype error =
    UserApiError nat
  | FilesApiError nat jsstring
  | DownloadFailed
  | UploadApiError nat
  | StatsApiError nat
  | FetchRejected
  | InvalidJson
  | StreamError
  | WriteFailed

datatype 'a outcome = Returned 'a | Raised error

text \<open>
  What an awaited \<open>fetch\<close> gives: it rejects, or it resolves to a response with a status
  and a body; \<open>parsed\<close> is \<open>None\<close> when the body is not JSON. \<open>res.ok\<close> is true for
  the statuses 200 to 299.
\<close>

datatype 'a fetched = Rejected | Response (status: nat) (body: jsstring) (parsed: "'a option")

definition ok :: "nat \<Rightarrow> bool" where
  "ok st \<longleftrightarrow> 200 \<le> st \<and> st \<le> 299"

section \<open>Token and settings management\<close>

type_synonym userId = jsstring

record upload_settings =
  expiry :: "jsstring option"
  compression :: "jsstring option"

text \<open>
  The staging file of an upload is named from \<open>Date.now()\<close> and the attachment's name
  (\<open>path.join('./', `tmp_${Date.now()}_${filename}`)\<close>).
\<close>

datatype path = TmpPath nat jsstring

text \<open>
  The module-level state: the two in-memory objects \<open>userTokens\<close> and \<open>userSettings\<close>,
  the contents of the two JSON files that mirror them, the staging files present in the
  working directory, and whether \<open>fs.writeFileSync\<close> on the data files succeeds.
  The keys are Discord user ids (decimal snowflakes), so the objects are maps on their own
  properties.
\<close>

record bot_state =
  userTokens :: "userId \<rightharpoonup> jsstring"
  userSettings :: "userId \<rightharpoonup> upload_settings"
  tokensFile :: "userId \<rightharpoonup> jsstring"
  settingsFile :: "userId \<rightharpoonup> upload_settings"
  tmpFiles :: "path set"
  diskOk :: bool

definition saveTokens :: "bot_state \<Rightarrow> unit outcome \<times> bot_state" where
  "saveTokens s =
     (if diskOk s then (Returned (), s\<lparr>tokensFile := userTokens s\<rparr>)
      else (Raised WriteFailed, s))"

definition saveSettings :: "bot_state \<Rightarrow> unit outcome \<times> bot_state" where
  "saveSettings s =
     (if diskOk s then (Returned (), s\<lparr>settingsFile := userSettings s\<rparr>)
      else (Raised WriteFailed, s))"

text \<open>\<open>userTokens[userId] || null\<close>: a stored empty string is falsy and reads as null.\<close>

definition getUserToken :: "bot_state \<Rightarrow> userId \<Rightarrow> jsstring option" where
  "getUserToken s userId =
     (case userTokens s userId of
        None \<Rightarrow> None
      | Some token \<Rightarrow> if token = [] then None else Some token)"

definition setUserToken :: "userId \<Rightarrow> jsstring \<Rightarrow> bot_state \<Rightarrow> unit outcome \<times> bot_state" where
  "setUserToken userId token s = saveTokens (s\<lparr>userTokens := (userTokens s)(userId \<mapsto> token)\<rparr>)"

definition deleteUserToken :: "userId \<Rightarrow> bot_state \<Rightarrow> unit outcome \<times> bot_state" where
  "deleteUserToken userId s = saveTokens (s\<lparr>userTokens := (userTokens s)(userId := None)\<rparr>)"

text \<open>\<open>userSettings[userId] || { expiry: null, compression: null }\<close>: a stored object is truthy.\<close>

definition getUserSettings :: "bot_state \<Rightarrow> userId \<Rightarrow> upload_settings" where
  "getUserSettings s userId =
     (case userSettings s userId of
        None \<Rightarrow> \<lparr>expiry = None, compression = None\<rparr>
      | Some st \<Rightarrow> st)"

text \<open>
  The expression \<open>x?.trim() || null\<close> of \<open>setUserSettings\<close>: null stays null, and a
  string whose trimmed form is empty becomes null.
\<close>

definition trimOrNull :: "jsstring option \<Rightarrow> jsstring option" where
  "trimOrNull x =
     (case x of
        None \<Rightarrow> None
      | Some str \<Rightarrow> if trim str = [] then None else Some (trim str))"

definition setUserSettings :: "userId \<Rightarrow> upload_settings \<Rightarrow> bot_state \<Rightarrow> unit outcome \<times> bot_state" where
  "setUserSettings userId settings s =
     saveSettings (s\<lparr>userSettings := (userSettings s)(userId \<mapsto>
       \<lparr>expiry = trimOrNull (expiry settings),
        compression = trimOrNull (compression settings)\<rparr>)\<rparr>)"

section \<open>The remote file service\<close>

text \<open>
  The JSON bodies the service returns. A field that is missing, null or of another type
  than the one the code reads is \<open>None\<close>. For \<open>resp_pages\<close>, \<open>None\<close> stands for a
  value with which the comparison \<open>page >= resp.pages\<close> is false (undefined, NaN).
\<close>

record me_json =
  username :: "jsstring option"
  role :: "jsstring option"
  quota_used :: "int option"
  quota_max :: "int option"

record 'u files_json =
  resp_page :: "'u list option"
  resp_pages :: "int option"

record zip_stats =
  zs_error :: "jsstring option"
  zs_users :: "int option"
  zs_files :: "int option"
  zs_size :: "int option"

text \<open>
  The download of the attachment: \<open>fetch(fileUrl)\<close> rejects, or resolves to a response
  whose body stream, once piped into the staging file, either lets the file stream emit
  \<open>finish\<close> or emits \<open>error\<close> itself; these are the two events the awaited promise
  listens to.
\<close>

datatype pipe_result = Finish | BodyError

datatype download = DownloadRejected | DownloadResponse nat pipe_result

text \<open>
  Everything outside the process that a command reads: the endpoints of the service
  (\<open>/api/user\<close>, \<open>/api/user/files\<close>, \<open>/api/stats\<close>, \<open>/api/upload\<close>), the attachment's
  host, the clock, the multipart headers of the form and the host's figures.
\<close>

record ('u, 'r, 'h) env =
  userApi :: "jsstring \<Rightarrow> me_json fetched"
  filesApi :: "jsstring \<Rightarrow> nat \<Rightarrow> nat \<Rightarrow> 'u files_json fetched"
  statsApi :: "zip_stats fetched"
  dateNow :: nat
  downloadApi :: "jsstring \<Rightarrow> download"
  formHeaders :: "(jsstring \<times> jsstring) list"
  uploadApi :: "(jsstring \<times> jsstring) list \<Rightarrow> path \<Rightarrow> 'r fetched"
  hostStats :: 'h

definition ziplineGetMe :: "('u, 'r, 'h) env \<Rightarrow> jsstring \<Rightarrow> me_json outcome" where
  "ziplineGetMe e token =
     (case userApi e token of
        Rejected \<Rightarrow> Raised FetchRejected
      | Response st txt j \<Rightarrow>
          if \<not> ok st then Raised (UserApiError st)
          else (case j of None \<Rightarrow> Raised InvalidJson | Some d \<Rightarrow> Returned d))"

definition ziplineFetchUserUploads ::
  "('u, 'r, 'h) env \<Rightarrow> jsstring \<Rightarrow> nat \<Rightarrow> nat \<Rightarrow> 'u files_json outcome" where
  "ziplineFetchUserUploads e token page perpage =
     (case filesApi e token page perpage of
        Rejected \<Rightarrow> Raised FetchRejected
      | Response st txt j \<Rightarrow>
          if \<not> ok st then Raised (FilesApiError st txt)
          else (case j of None \<Rightarrow> Raised InvalidJson | Some d \<Rightarrow> Returned d))"

text \<open>
  The \<open>while (true)\<close> loop of \<open>ziplineFetchAllUserUploads\<close>, with its two variables
  \<open>page\<close> and \<open>allUploads\<close>. The result is \<open>None\<close> when the loop never ends.
\<close>

partial_function (option) fetchAllLoop ::
  "('u, 'r, 'h) env \<Rightarrow> jsstring \<Rightarrow> nat \<Rightarrow> 'u list \<Rightarrow> 'u list outcome option" where
  "fetchAllLoop e token page allUploads =
     (case ziplineFetchUserUploads e token page 50 of
        Raised err \<Rightarrow> Some (Raised err)
      | Returned resp \<Rightarrow>
          (case resp_page resp of
             None \<Rightarrow> Some (Returned allUploads)
           | Some items \<Rightarrow>
               if length items = 0 then Some (Returned allUploads)
               else if (case resp_pages resp of None \<Rightarrow> False | Some n \<Rightarrow> int page \<ge> n)
                 then Some (Returned (allUploads @ items))
               else fetchAllLoop e token (page + 1) (allUploads @ items)))"

definition ziplineFetchAllUserUploads ::
  "('u, 'r, 'h) env \<Rightarrow> jsstring \<Rightarrow> 'u list outcome option" where
  "ziplineFetchAllUserUploads e token = fetchAllLoop e token 1 []"

text \<open>
  The request headers of the upload: \<open>Authorization\<close>, the form's own headers, and the two
  optional headers, each set when the setting is truthy and not the empty string.
\<close>

definition uploadHeaders ::
  "jsstring \<Rightarrow> (jsstring \<times> jsstring) list \<Rightarrow> upload_settings \<Rightarrow> (jsstring \<times> jsstring) list" where
  "uploadHeaders token form settings =
     [(js ''Authorization'', token)] @ form
     @ (case expiry settings of
          None \<Rightarrow> []
        | Some x \<Rightarrow> if x \<noteq> [] then [(js ''x-zipline-deletes-at'', x)] else [])
     @ (case compression settings of
          None \<Rightarrow> []
        | Some c \<Rightarrow> if c \<noteq> [] then [(js ''x-zipline-compression'', c)] else [])"

text \<open>
  \<open>ziplineUploadFromUrl\<close>, statement by statement: \<open>fs.createWriteStream(tmpPath)\<close>
  creates the staging file, \<open>fs.unlinkSync(tmpPath)\<close> removes it.
\<close>

definition ziplineUploadFromUrl ::
  "('u, 'r, 'h) env \<Rightarrow> jsstring \<Rightarrow> jsstring \<Rightarrow> jsstring \<Rightarrow> userId \<Rightarrow> bot_state
     \<Rightarrow> 'r outcome \<times> bot_state" where
  "ziplineUploadFromUrl e token fileUrl filename userId s =
     (let settings = getUserSettings s userId;
          tmpPath = TmpPath (dateNow e) filename
      in case downloadApi e fileUrl of
           DownloadRejected \<Rightarrow> (Raised FetchRejected, s)
         | DownloadResponse st piped \<Rightarrow>
             if \<not> ok st then (Raised DownloadFailed, s)
             else
               let s1 = s\<lparr>tmpFiles := insert tmpPath (tmpFiles s)\<rparr>
               in case piped of
                    BodyError \<Rightarrow> (Raised StreamError, s1)
                  | Finish \<Rightarrow>
                      (case uploadApi e (uploadHeaders token (formHeaders e) settings) tmpPath of
                         Rejected \<Rightarrow> (Raised FetchRejected, s1)
                       | Response ust txt j \<Rightarrow>
                           let s2 = s1\<lparr>tmpFiles := tmpFiles s1 - {tmpPath}\<rparr>
                           in if \<not> ok ust then (Raised (UploadApiError ust), s2)
                              else (case j of
                                      None \<Rightarrow> (Raised InvalidJson, s2)
                                    | Some r \<Rightarrow> (Returned r, s2))))"

definition ziplineGetStats :: "('u, 'r, 'h) env \<Rightarrow> zip_stats outcome" where
  "ziplineGetStats e =
     (case statsApi e of
        Rejected \<Rightarrow> Raised FetchRejected
      | Response st txt j \<Rightarrow>
          if \<not> ok st then Raised (StatsApiError st)
          else (case j of None \<Rightarrow> Raised InvalidJson | Some d \<Rightarrow> Returned d))"

section \<open>Paginated listing\<close>

text \<open>
  The variables \<open>paginateUploads\<close> closes over: the invoking user, the uploads and the
  current \<open>page\<close>. \<open>totalPages\<close> is computed once from the uploads, as
  \<open>Math.ceil(uploads.length / pageSize)\<close>.
\<close>

record 'u session =
  interactionUser :: userId
  uploads :: "'u list"
  page :: nat

definition pageSize :: nat where
  "pageSize = 5"

definition totalPages :: "'u list \<Rightarrow> nat" where
  "totalPages ups = nat \<lceil>real (length ups) / real pageSize\<rceil>"

text \<open>
  The embed: the footer \<open>Page ${page + 1} of ${totalPages}\<close> and the slice
  \<open>uploads.slice(page * pageSize, (page + 1) * pageSize)\<close>, whose records the description
  shows one per line. The row of buttons: \<open>prev\<close> disabled on page 0, \<open>next\<close> disabled
  when \<open>page + 1 === totalPages\<close>.
\<close>

record 'u embed =
  footerPage :: nat
  footerTotal :: nat
  shown :: "'u list"

record buttons =
  prevDisabled :: bool
  nextDisabled :: bool

definition createEmbed :: "'u session \<Rightarrow> 'u embed" where
  "createEmbed s =
     \<lparr>footerPage = page s + 1,
      footerTotal = totalPages (uploads s),
      shown = take ((page s + 1) * pageSize - page s * pageSize)
                (drop (page s * pageSize) (uploads s))\<rparr>"

definition row :: "'u session \<Rightarrow> buttons" where
  "row s = \<lparr>prevDisabled = (page s = 0), nextDisabled = (page s + 1 = totalPages (uploads s))\<rparr>"

datatype zip_section = ZipUnavailable jsstring | ZipFigures "int option" "int option" "int option"

text \<open>
  What the bot sends, by message: the fixed texts are constructors
  (\<open>OnlyYouCanNavigate\<close> is "Only you can navigate pages!", \<open>ErrorOccurred\<close> is
  "An error occurred.", \<open>TokenMissing\<close> is "Please set your token first using /zipline
  settoken."), the others carry the data the text is built from.
\<close>

datatype ('u, 'r, 'h) content =
    TokenSaved
  | LoggedOut
  | InviteLink
  | AboutBot
  | TokenMissing
  | MeInfo me_json
  | NoUploads
  | UploadsView "'u embed" buttons
  | UploadSuccessful 'r
  | SettingsSaved
  | StatsContent 'h zip_section "jsstring option" int "int option"
  | ErrorOccurred
  | OnlyYouCanNavigate

text \<open>
  The calls on Discord objects, in the order they are made: \<open>interaction.reply\<close>,
  \<open>interaction.deferReply\<close> and \<open>interaction.editReply\<close> on the command's interaction
  (the flag is \<open>ephemeral\<close>), \<open>i.reply\<close> and \<open>i.update\<close> on a button's interaction,
  \<open>message.edit\<close> with the list of component rows, and \<open>logError\<close>.
\<close>

datatype ('u, 'r, 'h) effect =
    Reply "('u, 'r, 'h) content" bool
  | DeferReply bool
  | EditReply "('u, 'r, 'h) content"
  | ComponentReply "('u, 'r, 'h) content" bool
  | ComponentUpdate "'u embed" buttons
  | MessageEdit "buttons list"
  | LogError error

definition paginateUploads ::
  "userId \<Rightarrow> 'u list \<Rightarrow> 'u session \<times> ('u, 'r, 'h) effect list" where
  "paginateUploads user ups =
     (let s = \<lparr>interactionUser = user, uploads = ups, page = 0\<rparr>
      in (s, [Reply (UploadsView (createEmbed s) (row s)) True]))"

text \<open>A click on a component of the message: \<open>i.user.id\<close> and \<open>i.customId\<close>.\<close>

record component_event =
  clicker :: userId
  customId :: jsstring

text \<open>The \<open>collect\<close> listener of the collector.\<close>

definition collect ::
  "'u session \<Rightarrow> component_event \<Rightarrow> 'u session \<times> ('u, 'r, 'h) effect list" where
  "collect s i =
     (if clicker i \<noteq> interactionUser s then (s, [ComponentReply OnlyYouCanNavigate True])
      else
        let s1 = (if customId i = js ''prev'' \<and> page s > 0 then s\<lparr>page := page s - 1\<rparr> else s);
            s2 = (if customId i = js ''next'' \<and> int (page s1) < int (totalPages (uploads s1)) - 1
                  then s1\<lparr>page := page s1 + 1\<rparr> else s1)
        in (s2, [ComponentUpdate (createEmbed s2) (row s2)]))"

text \<open>The \<open>end\<close> listener of the collector: \<open>message.edit({ components: [] })\<close>.\<close>

definition collectorEnd :: "('u, 'r, 'h) effect list" where
  "collectorEnd = [MessageEdit []]"

section \<open>Command handler\<close>

datatype subcommand =
    SetToken jsstring
  | Logout
  | Invite
  | About
  | Me
  | ListUploads
  | Upload jsstring jsstring
  | Settings "jsstring option" "jsstring option"
  | Stats

text \<open>
  The result of the \<open>try\<close> block of the handler: whether it returned or threw, the calls
  made until then, the pagination session if one was opened, and the state.
  \<open>None\<close> is a listing that never ends.
\<close>

type_synonym ('u, 'r, 'h) run =
  "(unit outcome \<times> ('u, 'r, 'h) effect list \<times> 'u session option \<times> bot_state) option"

text \<open>The blocks after the token check: \<open>me\<close>, \<open>list\<close>, \<open>upload\<close>, \<open>settings\<close>, \<open>stats\<close>.\<close>

fun withToken ::
  "('u, 'r, 'h) env \<Rightarrow> userId \<Rightarrow> jsstring \<Rightarrow> subcommand \<Rightarrow> bot_state \<Rightarrow> ('u, 'r, 'h) run" where
  "withToken e userId token Me s =
     (case ziplineGetMe e token of
        Raised err \<Rightarrow> Some (Raised err, [DeferReply True], None, s)
      | Returned d \<Rightarrow> Some (Returned (), [DeferReply True, EditReply (MeInfo d)], None, s))"
| "withToken e userId token ListUploads s =
     (case ziplineFetchAllUserUploads e token of
        None \<Rightarrow> None
      | Some (Raised err) \<Rightarrow> Some (Raised err, [], None, s)
      | Some (Returned ups) \<Rightarrow>
          if length ups = 0 then Some (Returned (), [Reply NoUploads True], None, s)
          else (case paginateUploads userId ups of
                  (sess, effs) \<Rightarrow> Some (Returned (), effs, Some sess, s)))"
| "withToken e userId token (Upload url name) s =
     (case ziplineUploadFromUrl e token url name userId s of
        (Raised err, s') \<Rightarrow> Some (Raised err, [DeferReply True], None, s')
      | (Returned r, s') \<Rightarrow>
          Some (Returned (), [DeferReply True, EditReply (UploadSuccessful r)], None, s'))"
| "withToken e userId token (Settings x c) s =
     (case setUserSettings userId \<lparr>expiry = x, compression = c\<rparr> s of
        (Raised err, s') \<Rightarrow> Some (Raised err, [], None, s')
      | (Returned u, s') \<Rightarrow> Some (Returned (), [Reply SettingsSaved True], None, s'))"
| "withToken e userId token Stats s =
     (let zipStats = (case ziplineGetStats e of
                        Raised err \<Rightarrow> \<lparr>zs_error = Some (js ''Unavailable''), zs_users = None,
                                       zs_files = None, zs_size = None\<rparr>
                      | Returned d \<Rightarrow> d);
          userMe = (case ziplineGetMe e token of
                      Raised err \<Rightarrow> \<lparr>username = Some (js ''Unknown''), role = None,
                                     quota_used = Some 0, quota_max = Some 0\<rparr>
                    | Returned d \<Rightarrow> d);
          zipLines = (case zs_error zipStats of
                        Some msg \<Rightarrow>
                          if msg \<noteq> [] then ZipUnavailable msg
                          else ZipFigures (zs_users zipStats) (zs_files zipStats)
                                 (if zs_size zipStats = Some 0 then None else zs_size zipStats)
                      | None \<Rightarrow>
                          ZipFigures (zs_users zipStats) (zs_files zipStats)
                            (if zs_size zipStats = Some 0 then None else zs_size zipStats))
      in Some (Returned (),
               [DeferReply True,
                EditReply (StatsContent (hostStats e) zipLines (username userMe)
                  (case quota_used userMe of None \<Rightarrow> 0 | Some n \<Rightarrow> n)
                  (if quota_max userMe = Some 0 then None else quota_max userMe))],
               None, s))"
| "withToken e userId token sub s = Some (Returned (), [], None, s)"

text \<open>
  The \<open>try\<close> block: \<open>settoken\<close>, \<open>logout\<close>, \<open>invite\<close> and \<open>about\<close> run without a
  token; every other subcommand first reads the user's token.
\<close>

fun tryBlock ::
  "('u, 'r, 'h) env \<Rightarrow> userId \<Rightarrow> subcommand \<Rightarrow> bot_state \<Rightarrow> ('u, 'r, 'h) run" where
  "tryBlock e userId (SetToken token) s =
     (case setUserToken userId token s of
        (Raised err, s') \<Rightarrow> Some (Raised err, [], None, s')
      | (Returned u, s') \<Rightarrow> Some (Returned (), [Reply TokenSaved True], None, s'))"
| "tryBlock e userId Logout s =
     (case deleteUserToken userId s of
        (Raised err, s') \<Rightarrow> Some (Raised err, [], None, s')
      | (Returned u, s') \<Rightarrow> Some (Returned (), [Reply LoggedOut True], None, s'))"
| "tryBlock e userId Invite s = Some (Returned (), [Reply InviteLink True], None, s)"
| "tryBlock e userId About s = Some (Returned (), [Reply AboutBot True], None, s)"
| "tryBlock e userId sub s =
     (case getUserToken s userId of
        None \<Rightarrow> Some (Returned (), [Reply TokenMissing True], None, s)
      | Some token \<Rightarrow> withToken e userId token sub s)"

text \<open>\<open>interaction.deferred || interaction.replied\<close>, read off the calls made so far.\<close>

primrec responded :: "('u, 'r, 'h) effect list \<Rightarrow> bool" where
  "responded [] = False"
| "responded (x # xs) =
     (case x of Reply c b \<Rightarrow> True | DeferReply b \<Rightarrow> True | _ \<Rightarrow> responded xs)"

text \<open>
  The \<open>interactionCreate\<close> listener for a \<open>zipline\<close> command: the \<open>try\<close> block, and the
  \<open>catch\<close> that logs the error and answers with the generic notice.
\<close>

definition interactionCreate ::
  "('u, 'r, 'h) env \<Rightarrow> userId \<Rightarrow> subcommand \<Rightarrow> bot_state
     \<Rightarrow> (('u, 'r, 'h) effect list \<times> 'u session option \<times> bot_state) option" where
  "interactionCreate e userId sub s =
     (case tryBlock e userId sub s of
        None \<Rightarrow> None
      | Some (Returned u, effs, sess, s') \<Rightarrow> Some (effs, sess, s')
      | Some (Raised err, effs, sess, s') \<Rightarrow>
          Some (effs @ [LogError err,
                        if responded effs then EditReply ErrorOccurred
                        else Reply ErrorOccurred True],
                sess, s'))"

section \<open>Environments and states used in the statements\<close>

text \<open>
  The state after start-up when no data file exists: both files are created as \<open>{}\<close> and
  read back.
\<close>

definition initialState :: bot_state where
  "initialState =
     \<lparr>userTokens = Map.empty, userSettings = Map.empty, tokensFile = Map.empty,
      settingsFile = Map.empty, tmpFiles = {}, diskOk = True\<rparr>"

text \<open>
  A service that holds the pages \<open>ps\<close> of a listing: page \<open>p\<close> (counted from 1) is
  \<open>ps ! (p - 1)\<close>, every page beyond the last is empty, and every answer reports
  \<open>reported\<close> as the number of pages. The service is consistent when no page is empty and
  \<open>reported\<close> is the number of pages. The other endpoints do not answer.
\<close>

definition pagedEnv :: "'u list list \<Rightarrow> int option \<Rightarrow> ('u, unit, unit) env" where
  "pagedEnv ps reported =
     \<lparr>userApi = (\<lambda>token. Rejected),
      filesApi = (\<lambda>token p perpage.
        Response 200 [] (Some \<lparr>resp_page = Some (if 1 \<le> p \<and> p \<le> length ps then ps ! (p - 1) else []),
                               resp_pages = reported\<rparr>)),
      statsApi = Rejected,
      dateNow = 0,
      downloadApi = (\<lambda>url. DownloadRejected),
      formHeaders = [],
      uploadApi = (\<lambda>hs f. Rejected),
      hostStats = ()\<rparr>"

definition noEmptyPage :: "'u list list \<Rightarrow> bool" where
  "noEmptyPage ps = list_all (\<lambda>items. items \<noteq> []) ps"

text \<open>The listing endpoint answers page \<open>p\<close> with an empty or missing \<open>page\<close> array.\<close>

definition emptyPageAt :: "('u, 'r, 'h) env \<Rightarrow> jsstring \<Rightarrow> nat \<Rightarrow> bool" where
  "emptyPageAt e token p =
     (case ziplineFetchUserUploads e token p 50 of
        Raised err \<Rightarrow> False
      | Returned resp \<Rightarrow> (case resp_page resp of None \<Rightarrow> True | Some items \<Rightarrow> items = []))"

text \<open>
  An attachment host that answers 200 and whose connection breaks while the body is
  read, at clock value \<open>now\<close>; the service itself does not answer.
\<close>

definition brokenDownloadEnv :: "nat \<Rightarrow> (unit, unit, unit) env" where
  "brokenDownloadEnv now =
     \<lparr>userApi = (\<lambda>token. Rejected),
      filesApi = (\<lambda>token p perpage. Rejected),
      statsApi = Rejected,
      dateNow = now,
      downloadApi = (\<lambda>url. DownloadResponse 200 BodyError),
      formHeaders = [],
      uploadApi = (\<lambda>hs f. Rejected),
      hostStats = ()\<rparr>"

text \<open>
  Normalisation of a settings field as the specification words it: an absent field stays
  absent; a field that is empty or only whitespace is stored as absent; any other field is
  stored without its surrounding whitespace, that is, the given string is the stored one
  between two runs of whitespace, and the stored one neither starts nor ends with
  whitespace.
\<close>

definition normalizedTo :: "jsstring option \<Rightarrow> jsstring option \<Rightarrow> bool" where
  "normalizedTo given stored =
     (case given of
        None \<Rightarrow> stored = None
      | Some str \<Rightarrow>
          (case stored of
             None \<Rightarrow> list_all isWhiteSpace str
           | Some t \<Rightarrow>
               t \<noteq> [] \<and> \<not> isWhiteSpace (hd t) \<and> \<not> isWhiteSpace (last t) \<and>
               (\<exists>l r. str = l @ t @ r \<and> list_all isWhiteSpace l \<and> list_all isWhiteSpace r)))"

section \<open>Fetching all uploads\<close>

lemma files_paged:
  "ziplineFetchUserUploads (pagedEnv ps reported) token p perpage =
     Returned \<lparr>resp_page = Some (if 1 \<le> p \<and> p \<le> length ps then ps ! (p - 1) else []),
               resp_pages = reported\<rparr>"
  by (simp add: ziplineFetchUserUploads_def pagedEnv_def ok_def)

lemma loop_backstop:
  "emptyPageAt e token (p + k) \<Longrightarrow> \<exists>y. fetchAllLoop e token p acc = Some y"
proof (induction k arbitrary: p acc)
  case 0
  then show ?case
    by (subst fetchAllLoop.simps) (auto simp: emptyPageAt_def split: outcome.splits option.splits)
next
  case (Suc k)
  from Suc.prems have "emptyPageAt e token (Suc p + k)" by simp
  from Suc.IH[OF this] have ih: "\<And>acc. \<exists>y. fetchAllLoop e token (Suc p) acc = Some y" by blast
  show ?case
    by (subst fetchAllLoop.simps) (auto simp: ih split: outcome.splits option.splits)
qed

lemma drop_pred_Cons:
  "Suc 0 \<le> p \<Longrightarrow> p \<le> length ps \<Longrightarrow>
   drop (p - Suc 0) ps = ps ! (p - Suc 0) # drop p ps"
  using Cons_nth_drop_Suc[of "p - 1" ps] by simp

lemma loop_consistent:
  "noEmptyPage ps \<Longrightarrow> 1 \<le> p \<Longrightarrow> p \<le> length ps \<Longrightarrow>
   fetchAllLoop (pagedEnv ps (Some (int (length ps)))) token p acc
     = Some (Returned (acc @ concat (drop (p - 1) ps)))"
proof (induction "length ps - p" arbitrary: p acc)
  case 0
  then have p: "p = length ps" by simp
  have ne: "ps ! (p - 1) \<noteq> []"
    using 0 by (simp add: noEmptyPage_def list_all_length)
  show ?case
    using ne 0 p by (subst fetchAllLoop.simps) (simp add: files_paged drop_pred_Cons)
next
  case (Suc n)
  then have lt: "p < length ps" by simp
  have ne: "ps ! (p - 1) \<noteq> []"
    using Suc.prems by (simp add: noEmptyPage_def list_all_length)
  have "n = length ps - Suc p" using Suc.hyps(2) by simp
  from Suc.hyps(1)[OF this Suc.prems(1)] lt
  have ih: "\<And>acc. fetchAllLoop (pagedEnv ps (Some (int (length ps)))) token (Suc p) acc
     = Some (Returned (acc @ concat (drop p ps)))" by simp
  show ?case
    using ne lt Suc.prems
    by (subst fetchAllLoop.simps) (simp add: files_paged ih drop_pred_Cons)
qed

lemma fetchAll_consistent:
  "noEmptyPage ps \<Longrightarrow>
   ziplineFetchAllUserUploads (pagedEnv ps (Some (int (length ps)))) token
     = Some (Returned (concat ps))"
proof (cases ps)
  case Nil
  then show ?thesis
    unfolding ziplineFetchAllUserUploads_def
    by (subst fetchAllLoop.simps) (simp add: files_paged)
next
  case (Cons a list)
  assume "noEmptyPage ps"
  then show ?thesis
    unfolding ziplineFetchAllUserUploads_def
    using loop_consistent[of ps 1 token "[]"] Cons by simp
qed

lemma loop_prefix:
  "1 \<le> p \<Longrightarrow> p \<le> length ps + 1 \<Longrightarrow>
   \<exists>m. m \<le> length ps - (p - 1) \<and>
     fetchAllLoop (pagedEnv ps reported) token p acc
       = Some (Returned (acc @ concat (take m (drop (p - 1) ps))))"
proof (induction "length ps + 1 - p" arbitrary: p acc)
  case 0
  then have "p = length ps + 1" by simp
  then have "fetchAllLoop (pagedEnv ps reported) token p acc = Some (Returned acc)"
    by (subst fetchAllLoop.simps) (simp add: files_paged)
  then show ?case by (intro exI[of _ 0]) simp
next
  case (Suc n)
  then have le: "p \<le> length ps" by simp
  have "n = length ps + 1 - Suc p" using Suc.hyps(2) by simp
  from Suc.hyps(1)[OF this, of "acc @ ps ! (p - 1)"] le
  have "\<exists>m\<le>length ps - p.
           fetchAllLoop (pagedEnv ps reported) token (Suc p) (acc @ ps ! (p - 1)) =
           Some (Returned ((acc @ ps ! (p - 1)) @ concat (take m (drop p ps))))"
    by simp
  then obtain m where m: "m \<le> length ps - p"
    "fetchAllLoop (pagedEnv ps reported) token (Suc p) (acc @ ps ! (p - 1))
       = Some (Returned ((acc @ ps ! (p - 1)) @ concat (take m (drop p ps))))"
    by blast
  let ?stop = "case reported of None \<Rightarrow> False | Some n \<Rightarrow> n \<le> int p"
  consider (empty) "ps ! (p - 1) = []" | (last) "ps ! (p - 1) \<noteq> []" "?stop"
    | (more) "ps ! (p - 1) \<noteq> []" "\<not> ?stop" by blast
  then show ?case
  proof cases
    case empty
    then have "fetchAllLoop (pagedEnv ps reported) token p acc = Some (Returned acc)"
      by (subst fetchAllLoop.simps) (simp add: files_paged)
    then show ?thesis by (intro exI[of _ 0]) simp
  next
    case last
    then have "fetchAllLoop (pagedEnv ps reported) token p acc
       = Some (Returned (acc @ ps ! (p - 1)))"
      using le Suc.prems by (subst fetchAllLoop.simps) (simp add: files_paged)
    then show ?thesis
      using le Suc.prems by (intro exI[of _ 1]) (simp add: drop_pred_Cons)
  next
    case more
    then have "fetchAllLoop (pagedEnv ps reported) token p acc
       = Some (Returned ((acc @ ps ! (p - 1)) @ concat (take m (drop p ps))))"
      using le Suc.prems m(2) by (subst fetchAllLoop.simps) (simp add: files_paged)
    then show ?thesis
      using le Suc.prems m(1) by (intro exI[of _ "Suc m"]) (simp add: drop_pred_Cons)
  qed
qed

lemma fetchAll_prefix:
  "\<exists>m. m \<le> length ps \<and>
     ziplineFetchAllUserUploads (pagedEnv ps reported) token
       = Some (Returned (concat (take m ps)))"
  unfolding ziplineFetchAllUserUploads_def
  using loop_prefix[of 1 ps reported token "[]"] by simp

lemma fetchAll_backstop:
  "1 \<le> k \<Longrightarrow> emptyPageAt e token k \<Longrightarrow> \<exists>y. ziplineFetchAllUserUploads e token = Some y"
  unfolding ziplineFetchAllUserUploads_def
  using loop_backstop[of e token 1 "k - 1" "[]"] by simp

text \<open>
  C2. \<open>ziplineFetchAllUserUploads\<close> ends on every finite, consistent sequence of pages
  (no page empty, every answer reporting the true number of pages) and returns the
  concatenation of the pages in the order fetched. Whatever number of pages the service
  reports, it ends with the concatenation of the pages fetched so far, a prefix of the
  sequence. For any service at all, an empty (or missing) page at some page number is
  enough for the loop to end.
\<close>

theorem fetchAll_terminates:
  "(noEmptyPage ps \<longrightarrow>
      ziplineFetchAllUserUploads (pagedEnv ps (Some (int (length ps)))) token
        = Some (Returned (concat ps)))
   \<and> (\<exists>m. m \<le> length ps \<and>
          ziplineFetchAllUserUploads (pagedEnv ps reported) token
            = Some (Returned (concat (take m ps))))
   \<and> (1 \<le> k \<and> emptyPageAt e token' k \<longrightarrow>
          (\<exists>y. ziplineFetchAllUserUploads e token' = Some y))"
  using fetchAll_consistent[of ps token] fetchAll_prefix[of ps reported token]
    fetchAll_backstop[of k e token']
  by blast

theorem fetchAll_terminates_witness:
  "noEmptyPage [[1::nat, 2], [3]]
   \<and> ziplineFetchAllUserUploads (pagedEnv [[1::nat, 2], [3]] (Some 2)) (js ''t'')
       = Some (Returned [1, 2, 3])
   \<and> (1::nat) \<le> 3
   \<and> emptyPageAt (pagedEnv [[1::nat, 2], [3]] (Some 7)) (js ''t'') 3
   \<and> (\<exists>y. ziplineFetchAllUserUploads (pagedEnv [[1::nat, 2], [3]] (Some 7)) (js ''t'') = Some y)"
  using fetchAll_terminates[where ps = "[[1::nat, 2], [3]]" and token = "js ''t''"
      and reported = "Some 7" and k = 3 and e = "pagedEnv [[1::nat, 2], [3]] (Some 7)"
      and token' = "js ''t''"]
  by (simp add: noEmptyPage_def emptyPageAt_def files_paged)

section \<open>Token and settings store: properties\<close>

lemma rev_dropWhile_takeWhile:
  "rev (dropWhile P (rev xs)) @ rev (takeWhile P (rev xs)) = xs"
proof -
  have "rev (takeWhile P (rev xs) @ dropWhile P (rev xs)) = xs"
    by (simp only: takeWhile_dropWhile_id rev_rev_ident)
  then show ?thesis by (simp only: rev_append)
qed

lemma trim_suffix:
  "trim str @ rev (takeWhile isWhiteSpace (rev (dropWhile isWhiteSpace str)))
     = dropWhile isWhiteSpace str"
  unfolding trim_def by (rule rev_dropWhile_takeWhile)

lemma trim_decomp:
  "\<exists>l r. str = l @ trim str @ r \<and> list_all isWhiteSpace l \<and> list_all isWhiteSpace r"
proof -
  let ?r = "rev (takeWhile isWhiteSpace (rev (dropWhile isWhiteSpace str)))"
  have 3: "takeWhile isWhiteSpace str @ trim str @ ?r = str"
    by (simp only: trim_suffix takeWhile_dropWhile_id)
  have 4: "list_all isWhiteSpace (takeWhile isWhiteSpace str)"
    by (auto simp: list_all_iff dest: set_takeWhileD)
  have 5: "list_all isWhiteSpace ?r"
    by (auto simp: list_all_iff dest: set_takeWhileD)
  show ?thesis
    by (rule exI[of _ "takeWhile isWhiteSpace str"], rule exI[of _ ?r])
       (intro conjI 3[symmetric] 4 5)
qed

lemma trim_hd: "trim str \<noteq> [] \<Longrightarrow> \<not> isWhiteSpace (hd (trim str))"
proof -
  assume ne: "trim str \<noteq> []"
  let ?d = "dropWhile isWhiteSpace str"
  let ?r = "rev (takeWhile isWhiteSpace (rev ?d))"
  have "hd (trim str @ ?r) = hd (trim str)" using ne by (rule hd_append2)
  then have h: "hd ?d = hd (trim str)" by (simp only: trim_suffix)
  have "trim str @ ?r \<noteq> []" using ne by simp
  then have "?d \<noteq> []" unfolding trim_suffix .
  then have "\<not> isWhiteSpace (hd ?d)" by (rule hd_dropWhile)
  then show ?thesis unfolding h .
qed

lemma trim_last: "trim str \<noteq> [] \<Longrightarrow> \<not> isWhiteSpace (last (trim str))"
proof -
  assume ne: "trim str \<noteq> []"
  let ?r = "dropWhile isWhiteSpace (rev (dropWhile isWhiteSpace str))"
  have r: "?r \<noteq> []" using ne by (simp add: trim_def)
  then have "\<not> isWhiteSpace (hd ?r)" by (rule hd_dropWhile)
  moreover have "last (trim str) = hd ?r" using r by (simp add: trim_def last_rev)
  ultimately show ?thesis by simp
qed

lemma dropWhile_all: "dropWhile P xs = [] \<longleftrightarrow> list_all P xs"
  by (simp add: list_all_iff)

lemma trim_empty_iff: "trim str = [] \<longleftrightarrow> list_all isWhiteSpace str"
proof
  assume "trim str = []"
  then have "dropWhile isWhiteSpace (rev (dropWhile isWhiteSpace str)) = []"
    by (simp add: trim_def)
  then have "list_all isWhiteSpace (rev (dropWhile isWhiteSpace str))"
    by (simp only: dropWhile_all)
  then have all: "list_all isWhiteSpace (dropWhile isWhiteSpace str)"
    by (simp add: list_all_iff)
  have "dropWhile isWhiteSpace str = []"
  proof (rule ccontr)
    assume ne: "dropWhile isWhiteSpace str \<noteq> []"
    then have "\<not> isWhiteSpace (hd (dropWhile isWhiteSpace str))" by (rule hd_dropWhile)
    moreover have "hd (dropWhile isWhiteSpace str) \<in> set (dropWhile isWhiteSpace str)"
      using ne by (rule hd_in_set)
    ultimately show False using all unfolding list_all_iff by blast
  qed
  then show "list_all isWhiteSpace str" by (simp only: dropWhile_all)
next
  assume "list_all isWhiteSpace str"
  then have "dropWhile isWhiteSpace str = []" by (simp only: dropWhile_all)
  then show "trim str = []" unfolding trim_def by (simp del: dropWhile_eq_Nil_conv)
qed

lemma trimOrNull_normalizes: "normalizedTo x (trimOrNull x)"
proof (cases x)
  case None
  then show ?thesis by (simp add: normalizedTo_def trimOrNull_def)
next
  case (Some str)
  show ?thesis
  proof (cases "trim str = []")
    case True
    then show ?thesis using Some trim_empty_iff[of str]
      by (simp add: normalizedTo_def trimOrNull_def)
  next
    case False
    then show ?thesis using Some trim_hd[of str] trim_last[of str] trim_decomp[of str]
      by (simp add: normalizedTo_def trimOrNull_def)
  qed
qed

lemma get_set_settings:
  "getUserSettings (snd (setUserSettings U st s)) U =
     \<lparr>expiry = trimOrNull (expiry st), compression = trimOrNull (compression st)\<rparr>"
  by (simp add: getUserSettings_def setUserSettings_def saveSettings_def)

lemma trim_example: "trim (js '' 7d '') = js ''7d''"
  by (simp add: js_def trim_def isWhiteSpace_def)

text \<open>
  C7. Reading a user's settings after setting them gives the normalised input: each field
  is the given one without its surrounding whitespace, and a field that is empty or only
  whitespace is absent. Setting expiry \<open>" 7d "\<close> and compression \<open>""\<close> stores expiry
  \<open>"7d"\<close> and no compression.
\<close>

theorem settings_set_get_normalizes:
  "normalizedTo (expiry st) (expiry (getUserSettings (snd (setUserSettings U st s)) U))
   \<and> normalizedTo (compression st)
        (compression (getUserSettings (snd (setUserSettings U st s)) U))
   \<and> getUserSettings
        (snd (setUserSettings U \<lparr>expiry = Some (js '' 7d ''), compression = Some (js [])\<rparr> s)) U
       = \<lparr>expiry = Some (js ''7d''), compression = None\<rparr>"
proof -
  have e: "trim (js []) = []" by (simp add: js_def trim_def)
  have n: "js ''7d'' \<noteq> []" by (simp add: js_def)
  have 1: "trimOrNull (Some (js '' 7d '')) = Some (js ''7d'')"
    using n by (simp add: trimOrNull_def trim_example)
  have 2: "trimOrNull (Some (js [])) = None"
    using e by (simp add: trimOrNull_def)
  show ?thesis
    by (simp add: get_set_settings trimOrNull_normalizes 1 2)
qed

lemma delete_absent_map:
  "userTokens s U = None \<Longrightarrow> userTokens (snd (deleteUserToken U s)) = userTokens s"
  by (simp add: deleteUserToken_def saveTokens_def fun_upd_idem)

lemma delete_absent_state:
  assumes "userTokens s U = None" and "tokensFile s = userTokens s"
  shows "snd (deleteUserToken U s) = s"
proof -
  have m: "(userTokens s)(U := None) = userTokens s"
    using assms(1) by (simp add: fun_upd_idem)
  have "s\<lparr>userTokens := userTokens s, tokensFile := tokensFile s\<rparr> = s" by simp
  then have "s\<lparr>userTokens := userTokens s, tokensFile := userTokens s\<rparr> = s"
    using assms(2) by simp
  then show ?thesis
    by (simp add: deleteUserToken_def saveTokens_def m)
qed

lemma delete_returns:
  "diskOk s \<Longrightarrow> fst (deleteUserToken U s) = Returned ()"
  by (simp add: deleteUserToken_def saveTokens_def)

text \<open>
  C5, as amended. For every user and every non-empty token, \<open>getUserToken\<close> after
  \<open>setUserToken\<close> returns that token; after setting the empty string it returns null,
  because the getter reads a falsy entry as missing. After \<open>deleteUserToken\<close> it returns
  null. Setting the same token twice is the same as setting it once. Deleting a user
  without an entry leaves the tokens as they are; it throws only when the file cannot be
  written, and when the file mirrors the object the whole state is unchanged.
\<close>

theorem token_get_after_set_delete:
  "(T \<noteq> [] \<longrightarrow> getUserToken (snd (setUserToken U T s)) U = Some T)
   \<and> getUserToken (snd (setUserToken U [] s)) U = None
   \<and> getUserToken (snd (deleteUserToken U s)) U = None
   \<and> setUserToken U T (snd (setUserToken U T s)) = setUserToken U T s
   \<and> (userTokens s U = None \<longrightarrow>
        userTokens (snd (deleteUserToken U s)) = userTokens s
        \<and> (diskOk s \<longrightarrow> fst (deleteUserToken U s) = Returned ())
        \<and> (tokensFile s = userTokens s \<longrightarrow> snd (deleteUserToken U s) = s))"
proof -
  have 1: "T \<noteq> [] \<longrightarrow> getUserToken (snd (setUserToken U T s)) U = Some T"
    by (simp add: getUserToken_def setUserToken_def saveTokens_def)
  have 2: "getUserToken (snd (setUserToken U [] s)) U = None"
    by (simp add: getUserToken_def setUserToken_def saveTokens_def)
  have 3: "getUserToken (snd (deleteUserToken U s)) U = None"
    by (simp add: getUserToken_def deleteUserToken_def saveTokens_def)
  have 4: "setUserToken U T (snd (setUserToken U T s)) = setUserToken U T s"
    by (simp add: setUserToken_def saveTokens_def)
  show ?thesis
    using 1 2 3 4 delete_absent_map[of s U] delete_absent_state[of s U] delete_returns[of s U]
    by blast
qed

text \<open>The statement at user 42 with token \<open>tok\<close>, from the initial state.\<close>

theorem token_get_after_set_delete_witness:
  "js ''tok'' \<noteq> []
   \<and> getUserToken (snd (setUserToken (js ''42'') (js ''tok'') initialState)) (js ''42'')
       = Some (js ''tok'')
   \<and> userTokens initialState (js ''42'') = None
   \<and> diskOk initialState
   \<and> tokensFile initialState = userTokens initialState
   \<and> fst (deleteUserToken (js ''42'') initialState) = Returned ()
   \<and> snd (deleteUserToken (js ''42'') initialState) = initialState"
proof -
  have a: "js ''tok'' \<noteq> []" by (simp add: js_def)
  have b: "userTokens initialState (js ''42'') = None" by (simp add: initialState_def)
  have c: "diskOk initialState" by (simp add: initialState_def)
  have d: "tokensFile initialState = userTokens initialState" by (simp add: initialState_def)
  show ?thesis
    using a b c d token_get_after_set_delete[of "js ''tok''" "js ''42''" initialState]
    by simp
qed

text \<open>
  C5 as stated fails for the empty token: after \<open>setUserToken\<close> with \<open>""\<close>,
  \<open>getUserToken\<close> does not return \<open>""\<close>.
\<close>

theorem empty_token_reads_absent:
  "getUserToken (snd (setUserToken (js ''42'') (js []) initialState)) (js ''42'')
     \<noteq> Some (js [])"
  by (simp add: getUserToken_def setUserToken_def saveTokens_def initialState_def js_def)

text \<open>
  C9. A token or settings mutation for user \<open>U\<close> leaves the entry of every other user
  \<open>V\<close> as it was: in both objects, as read by both getters, and in both files when they
  mirrored the objects at \<open>V\<close>.
\<close>

theorem store_frame:
  "U \<noteq> V \<Longrightarrow>
   userTokens (snd (setUserToken U T s)) V = userTokens s V
   \<and> userSettings (snd (setUserToken U T s)) V = userSettings s V
   \<and> getUserToken (snd (setUserToken U T s)) V = getUserToken s V
   \<and> getUserSettings (snd (setUserToken U T s)) V = getUserSettings s V
   \<and> userTokens (snd (deleteUserToken U s)) V = userTokens s V
   \<and> userSettings (snd (deleteUserToken U s)) V = userSettings s V
   \<and> getUserToken (snd (deleteUserToken U s)) V = getUserToken s V
   \<and> getUserSettings (snd (deleteUserToken U s)) V = getUserSettings s V
   \<and> userTokens (snd (setUserSettings U st s)) V = userTokens s V
   \<and> userSettings (snd (setUserSettings U st s)) V = userSettings s V
   \<and> getUserToken (snd (setUserSettings U st s)) V = getUserToken s V
   \<and> getUserSettings (snd (setUserSettings U st s)) V = getUserSettings s V
   \<and> (tokensFile s V = userTokens s V \<and> settingsFile s V = userSettings s V \<longrightarrow>
        tokensFile (snd (setUserToken U T s)) V = tokensFile s V
        \<and> settingsFile (snd (setUserToken U T s)) V = settingsFile s V
        \<and> tokensFile (snd (deleteUserToken U s)) V = tokensFile s V
        \<and> settingsFile (snd (deleteUserToken U s)) V = settingsFile s V
        \<and> tokensFile (snd (setUserSettings U st s)) V = tokensFile s V
        \<and> settingsFile (snd (setUserSettings U st s)) V = settingsFile s V)"
  by (simp add: getUserToken_def getUserSettings_def setUserToken_def deleteUserToken_def
      setUserSettings_def saveTokens_def saveSettings_def)

text \<open>Users 1 and 2, where user 2 holds a token: logging user 1 out keeps it.\<close>

theorem store_frame_witness:
  "js ''1'' \<noteq> js ''2''
   \<and> tokensFile (snd (setUserToken (js ''2'') (js ''tokV'') initialState)) (js ''2'')
       = userTokens (snd (setUserToken (js ''2'') (js ''tokV'') initialState)) (js ''2'')
   \<and> settingsFile (snd (setUserToken (js ''2'') (js ''tokV'') initialState)) (js ''2'')
       = userSettings (snd (setUserToken (js ''2'') (js ''tokV'') initialState)) (js ''2'')
   \<and> getUserToken (snd (deleteUserToken (js ''1'')
         (snd (setUserToken (js ''2'') (js ''tokV'') initialState)))) (js ''2'')
       = Some (js ''tokV'')
   \<and> tokensFile (snd (deleteUserToken (js ''1'')
         (snd (setUserToken (js ''2'') (js ''tokV'') initialState)))) (js ''2'')
       = Some (js ''tokV'')"
proof -
  let ?s = "snd (setUserToken (js ''2'') (js ''tokV'') initialState)"
  have a: "js ''1'' \<noteq> js ''2''" by (simp add: js_def)
  have b: "tokensFile ?s (js ''2'') = userTokens ?s (js ''2'')"
    by (simp add: setUserToken_def saveTokens_def initialState_def)
  have c: "settingsFile ?s (js ''2'') = userSettings ?s (js ''2'')"
    by (simp add: setUserToken_def saveTokens_def initialState_def)
  have d: "getUserToken ?s (js ''2'') = Some (js ''tokV'')"
    by (simp add: getUserToken_def setUserToken_def saveTokens_def initialState_def js_def)
  have e: "tokensFile ?s (js ''2'') = Some (js ''tokV'')"
    by (simp add: setUserToken_def saveTokens_def initialState_def)
  show ?thesis
    using a b c d e
      store_frame[OF a, of "js ''tok''" ?s "\<lparr>expiry = None, compression = None\<rparr>"]
    by simp
qed

lemma handler_settings_state:
  "getUserToken s U = Some token \<Longrightarrow>
   \<exists>effs. interactionCreate e U (Settings x c) s
     = Some (effs, None, snd (setUserSettings U \<lparr>expiry = x, compression = c\<rparr> s))"
  by (cases "diskOk s")
     (simp_all add: interactionCreate_def setUserSettings_def saveSettings_def)

lemma trimOrNull_None: "trimOrNull None = None"
  by (simp add: trimOrNull_def)

text \<open>
  C10. \<open>setUserSettings\<close> replaces the user's whole record: the stored record depends on
  the input alone, not on what was stored before, so a field absent from the input is
  absent afterwards whatever its previous value. The \<open>settings\<close> subcommand passes the
  two options as given (null when omitted), so a command with only one of them drops the
  other.
\<close>

theorem settings_set_replaces:
  "(compression st = None \<longrightarrow>
      compression (getUserSettings (snd (setUserSettings U st s)) U) = None)
   \<and> (expiry st = None \<longrightarrow>
      expiry (getUserSettings (snd (setUserSettings U st s)) U) = None)
   \<and> userSettings (snd (setUserSettings U st s)) U = userSettings (snd (setUserSettings U st s0)) U
   \<and> (getUserToken s U = Some token \<longrightarrow>
        (\<exists>effs s'. interactionCreate e U (Settings x None) s = Some (effs, None, s')
           \<and> compression (getUserSettings s' U) = None)
        \<and> (\<exists>effs s'. interactionCreate e U (Settings None c) s = Some (effs, None, s')
           \<and> expiry (getUserSettings s' U) = None))"
proof -
  have 1: "compression st = None \<longrightarrow>
      compression (getUserSettings (snd (setUserSettings U st s)) U) = None"
    by (simp add: get_set_settings trimOrNull_None)
  have 2: "expiry st = None \<longrightarrow>
      expiry (getUserSettings (snd (setUserSettings U st s)) U) = None"
    by (simp add: get_set_settings trimOrNull_None)
  have 3: "userSettings (snd (setUserSettings U st s)) U
      = userSettings (snd (setUserSettings U st s0)) U"
    by (simp add: setUserSettings_def saveSettings_def)
  have 4: "getUserToken s U = Some token \<longrightarrow>
        (\<exists>effs s'. interactionCreate e U (Settings x None) s = Some (effs, None, s')
           \<and> compression (getUserSettings s' U) = None)"
    using handler_settings_state[of s U token e x None]
    by (auto simp: get_set_settings trimOrNull_None)
  have 5: "getUserToken s U = Some token \<longrightarrow>
        (\<exists>effs s'. interactionCreate e U (Settings None c) s = Some (effs, None, s')
           \<and> expiry (getUserSettings s' U) = None)"
    using handler_settings_state[of s U token e None c]
    by (auto simp: get_set_settings trimOrNull_None)
  show ?thesis using 1 2 3 4 5 by blast
qed

text \<open>
  User 42 has expiry \<open>1d\<close> and compression \<open>9\<close> stored: setting only an expiry drops
  the compression, setting only a compression drops the expiry.
\<close>

theorem settings_set_replaces_witness:
  "getUserToken
     (snd (setUserSettings (js ''42'') \<lparr>expiry = Some (js ''1d''), compression = Some (js ''9'')\<rparr>
        (snd (setUserToken (js ''42'') (js ''tok'') initialState)))) (js ''42'') = Some (js ''tok'')
   \<and> getUserSettings
        (snd (setUserSettings (js ''42'') \<lparr>expiry = Some (js ''1d''), compression = Some (js ''9'')\<rparr>
           (snd (setUserToken (js ''42'') (js ''tok'') initialState)))) (js ''42'')
       = \<lparr>expiry = Some (js ''1d''), compression = Some (js ''9'')\<rparr>
   \<and> compression \<lparr>expiry = Some (js ''7d''), compression = None\<rparr> = None
   \<and> compression (getUserSettings
        (snd (setUserSettings (js ''42'') \<lparr>expiry = Some (js ''7d''), compression = None\<rparr>
          (snd (setUserSettings (js ''42'') \<lparr>expiry = Some (js ''1d''), compression = Some (js ''9'')\<rparr>
             (snd (setUserToken (js ''42'') (js ''tok'') initialState)))))) (js ''42'')) = None
   \<and> expiry \<lparr>expiry = None, compression = Some (js ''5'')\<rparr> = None
   \<and> expiry (getUserSettings
        (snd (setUserSettings (js ''42'') \<lparr>expiry = None, compression = Some (js ''5'')\<rparr>
          (snd (setUserSettings (js ''42'') \<lparr>expiry = Some (js ''1d''), compression = Some (js ''9'')\<rparr>
             (snd (setUserToken (js ''42'') (js ''tok'') initialState)))))) (js ''42'')) = None"
proof -
  let ?s0 = "snd (setUserToken (js ''42'') (js ''tok'') initialState)"
  let ?s = "snd (setUserSettings (js ''42'')
               \<lparr>expiry = Some (js ''1d''), compression = Some (js ''9'')\<rparr> ?s0)"
  have t: "js ''tok'' \<noteq> []" by (simp add: js_def)
  have n: "trim (js ''9'') = js ''9''" by (simp add: js_def trim_def isWhiteSpace_def)
  have n': "js ''9'' \<noteq> []" by (simp add: js_def)
  have m: "trim (js ''1d'') = js ''1d''" by (simp add: js_def trim_def isWhiteSpace_def)
  have m': "js ''1d'' \<noteq> []" by (simp add: js_def)
  have a: "getUserToken ?s (js ''42'') = Some (js ''tok'')"
    using t by (simp add: getUserToken_def setUserToken_def setUserSettings_def saveTokens_def
        saveSettings_def initialState_def)
  have b: "getUserSettings ?s (js ''42'')
      = \<lparr>expiry = Some (js ''1d''), compression = Some (js ''9'')\<rparr>"
    using n n' m m' by (simp add: get_set_settings trimOrNull_def)
  show ?thesis
    using a b
      settings_set_replaces[where st = "\<lparr>expiry = Some (js ''7d''), compression = None\<rparr>"
        and U = "js ''42''" and s = ?s and ?s0.0 = initialState and token = "js ''tok''"
        and e = "brokenDownloadEnv 0" and x = "Some (js ''7d'')" and c = "Some (js ''5'')"]
      settings_set_replaces[where st = "\<lparr>expiry = None, compression = Some (js ''5'')\<rparr>"
        and U = "js ''42''" and s = ?s and ?s0.0 = initialState and token = "js ''tok''"
        and e = "brokenDownloadEnv 0" and x = "Some (js ''7d'')" and c = "Some (js ''5'')"]
    by simp
qed

section \<open>Pagination: properties\<close>

lemma js_prev_next: "js ''prev'' \<noteq> js ''next''"
  by (simp add: js_def)

lemma totalPages_div: "totalPages ups = (length ups + 4) div 5"
proof -
  have "\<lceil>real (length ups) / 5\<rceil> = int ((length ups + 4) div 5)"
  proof (rule ceiling_unique)
    have a: "real ((length ups + 4) div 5) * 5 \<ge> real (length ups)"
    proof -
      have "(length ups + 4) div 5 * 5 \<ge> length ups" by presburger
      then show ?thesis by (metis of_nat_le_iff of_nat_mult of_nat_numeral)
    qed
    have b: "real ((length ups + 4) div 5) * 5 < real (length ups) + 5"
    proof -
      have "(length ups + 4) div 5 * 5 < length ups + 5" by presburger
      then have "real ((length ups + 4) div 5 * 5) < real (length ups + 5)"
        using of_nat_less_iff by blast
      then show ?thesis by simp
    qed
    show "real_of_int (int ((length ups + 4) div 5)) - 1 < real (length ups) / 5"
      using b by simp
    show "real (length ups) / 5 \<le> real_of_int (int ((length ups + 4) div 5))"
      using a by simp
  qed
  then show ?thesis by (simp add: totalPages_def pageSize_def)
qed

lemma totalPages_least:
  "length ups \<le> 5 * totalPages ups \<and> (\<forall>n. length ups \<le> 5 * n \<longrightarrow> totalPages ups \<le> n)"
  unfolding totalPages_div by (intro conjI allI impI; presburger)

lemma next_on_last_page:
  "customId i = js ''next'' \<Longrightarrow> page s = totalPages (uploads s) - 1 \<Longrightarrow>
   page (fst (collect s i)) = page s"
  using js_prev_next by (auto simp: collect_def Let_def)

lemma prev_on_first_page:
  "customId i = js ''prev'' \<Longrightarrow> page s = 0 \<Longrightarrow> page (fst (collect s i)) = page s"
  using js_prev_next by (auto simp: collect_def Let_def)

text \<open>
  C3. For a list of \<open>N\<close> uploads the number of pages is the ceiling of \<open>N / 5\<close>: it is
  \<open>(N + 4) div 5\<close>, the least \<open>n\<close> with \<open>N \<le> 5 * n\<close>; a non-empty list opens
  on page 0 of at least one page, and the footer shows that number. A \<open>next\<close> click on the
  last page and a \<open>prev\<close> click on page 0 leave \<open>page\<close> as it is.
\<close>

theorem pagination_pages_and_edges:
  "int (totalPages ups) = \<lceil>real (length ups) / 5\<rceil>
   \<and> totalPages ups = (length ups + 4) div 5
   \<and> length ups \<le> 5 * totalPages ups
   \<and> (\<forall>n. length ups \<le> 5 * n \<longrightarrow> totalPages ups \<le> n)
   \<and> (ups \<noteq> [] \<longrightarrow>
        page (fst (paginateUploads user ups)) = 0
        \<and> footerTotal (createEmbed (fst (paginateUploads user ups))) = (length ups + 4) div 5
        \<and> 0 < totalPages ups)
   \<and> (customId i = js ''next'' \<and> page s = totalPages (uploads s) - 1 \<longrightarrow>
        page (fst (collect s i)) = page s)
   \<and> (customId i = js ''prev'' \<and> page s = 0 \<longrightarrow> page (fst (collect s i)) = page s)"
proof -
  have 1: "ups \<noteq> [] \<longrightarrow> 0 < totalPages ups"
    unfolding totalPages_div by (cases ups) simp_all
  have 2: "page (fst (paginateUploads user ups)) = 0"
    by (simp add: paginateUploads_def Let_def)
  have 3: "footerTotal (createEmbed (fst (paginateUploads user ups))) = (length ups + 4) div 5"
    by (simp add: paginateUploads_def Let_def createEmbed_def totalPages_div)
  have 4: "int (totalPages ups) = \<lceil>real (length ups) / 5\<rceil>"
    by (simp add: totalPages_def pageSize_def)
  show ?thesis
    using 1 2 3 4 totalPages_div[of ups] totalPages_least[of ups]
      next_on_last_page[of i s] prev_on_first_page[of i s]
    by blast
qed

text \<open>
  C4. A click by anyone but the invoking user is answered with the ephemeral notice
  "Only you can navigate pages!" and nothing else happens: the session, its \<open>page\<close>
  included, is unchanged and the message is not updated.
\<close>

theorem owner_guard:
  "clicker i \<noteq> interactionUser s \<Longrightarrow>
   collect s i = (s, [ComponentReply OnlyYouCanNavigate True])"
  by (simp add: collect_def)

text \<open>
  Twelve uploads make three pages; \<open>next\<close> on page index 2 and \<open>prev\<close> on page index 0
  stay where they are.
\<close>

theorem pagination_pages_and_edges_witness:
  "[1, 2, 3, 4, 5, 6, 7, 8, 9, 10, 11, 12 :: nat] \<noteq> []
   \<and> totalPages [1, 2, 3, 4, 5, 6, 7, 8, 9, 10, 11, 12 :: nat] = 3
   \<and> length [1, 2, 3, 4, 5, 6, 7, 8, 9, 10, 11, 12 :: nat] \<le> 5 * 3
   \<and> totalPages [1, 2, 3, 4, 5, 6, 7, 8, 9, 10, 11, 12 :: nat] \<le> 3
   \<and> footerTotal (createEmbed (fst (paginateUploads (js ''42'')
         [1, 2, 3, 4, 5, 6, 7, 8, 9, 10, 11, 12 :: nat]
         :: nat session \<times> (nat, unit, unit) effect list))) = 3
   \<and> customId \<lparr>clicker = js ''42'', customId = js ''next''\<rparr> = js ''next''
   \<and> page \<lparr>interactionUser = js ''42'', uploads = [1, 2, 3, 4, 5, 6, 7, 8, 9, 10, 11, 12 :: nat],
             page = 2\<rparr>
       = totalPages [1, 2, 3, 4, 5, 6, 7, 8, 9, 10, 11, 12 :: nat] - 1
   \<and> page (fst (collect
         \<lparr>interactionUser = js ''42'', uploads = [1, 2, 3, 4, 5, 6, 7, 8, 9, 10, 11, 12 :: nat],
          page = 2\<rparr>
         \<lparr>clicker = js ''42'', customId = js ''next''\<rparr>
         :: nat session \<times> (nat, unit, unit) effect list)) = 2
   \<and> customId \<lparr>clicker = js ''42'', customId = js ''prev''\<rparr> = js ''prev''
   \<and> page (fst (collect
         \<lparr>interactionUser = js ''42'', uploads = [1, 2, 3, 4, 5, 6, 7, 8, 9, 10, 11, 12 :: nat],
          page = 0\<rparr>
         \<lparr>clicker = js ''42'', customId = js ''prev''\<rparr>
         :: nat session \<times> (nat, unit, unit) effect list)) = 0"
proof -
  let ?ups = "[1, 2, 3, 4, 5, 6, 7, 8, 9, 10, 11, 12 :: nat]"
  let ?last = "\<lparr>interactionUser = js ''42'', uploads = ?ups, page = 2\<rparr>"
  let ?first = "\<lparr>interactionUser = js ''42'', uploads = ?ups, page = 0\<rparr>"
  let ?next = "\<lparr>clicker = js ''42'', customId = js ''next''\<rparr>"
  let ?prev = "\<lparr>clicker = js ''42'', customId = js ''prev''\<rparr>"
  note A = pagination_pages_and_edges[where ups = ?ups and s = ?last and i = ?next
        and user = "js ''42''" and ?'b = unit and ?'c = unit and ?'d = unit and ?'e = unit]
  note B = pagination_pages_and_edges[where ups = ?ups and s = ?first and i = ?prev
        and user = "js ''42''" and ?'b = unit and ?'c = unit and ?'d = unit and ?'e = unit]
  have t: "totalPages ?ups = 3"
    using A[THEN conjunct2, THEN conjunct1] by simp
  have m: "totalPages ?ups \<le> 3"
    using A[THEN conjunct2, THEN conjunct2, THEN conjunct2, THEN conjunct1, THEN spec, of 3]
    by simp
  have nx: "page (fst (collect ?last ?next :: nat session \<times> (nat, unit, unit) effect list)) = 2"
    using A[THEN conjunct2, THEN conjunct2, THEN conjunct2, THEN conjunct2, THEN conjunct2,
        THEN conjunct1] t
    by simp
  have pv: "page (fst (collect ?first ?prev :: nat session \<times> (nat, unit, unit) effect list)) = 0"
    using B[THEN conjunct2, THEN conjunct2, THEN conjunct2, THEN conjunct2, THEN conjunct2,
        THEN conjunct2]
    by simp
  have ft: "footerTotal (createEmbed (fst (paginateUploads (js ''42'') ?ups
      :: nat session \<times> (nat, unit, unit) effect list))) = 3"
    using A[THEN conjunct2, THEN conjunct2, THEN conjunct2, THEN conjunct2, THEN conjunct1]
    by simp
  show ?thesis using t m ft nx pv by simp
qed

text \<open>User 7 clicks \<open>next\<close> on the listing of user 42.\<close>

theorem owner_guard_witness:
  "clicker \<lparr>clicker = js ''7'', customId = js ''next''\<rparr>
     \<noteq> interactionUser \<lparr>interactionUser = js ''42'', uploads = [1, 2, 3, 4, 5, 6 :: nat], page = 0\<rparr>
   \<and> (collect \<lparr>interactionUser = js ''42'', uploads = [1, 2, 3, 4, 5, 6 :: nat], page = 0\<rparr>
         \<lparr>clicker = js ''7'', customId = js ''next''\<rparr>
         :: nat session \<times> (nat, unit, unit) effect list)
       = (\<lparr>interactionUser = js ''42'', uploads = [1, 2, 3, 4, 5, 6 :: nat], page = 0\<rparr>,
          [ComponentReply OnlyYouCanNavigate True])"
proof -
  have d: "js ''7'' \<noteq> js ''42''" by (simp add: js_def)
  show ?thesis
    using d owner_guard[of "\<lparr>clicker = js ''7'', customId = js ''next''\<rparr>"
        "\<lparr>interactionUser = js ''42'', uploads = [1, 2, 3, 4, 5, 6 :: nat], page = 0\<rparr>"]
    by simp
qed

text \<open>
  The example of the specification: with twelve uploads, \<open>next\<close> three times from page 0
  ends on page index 2, and page 0 shows the uploads 0 to 4.
\<close>

lemma example_twelve:
  "page (fst (collect (fst (collect (fst (collect
      \<lparr>interactionUser = js ''42'', uploads = [1, 2, 3, 4, 5, 6, 7, 8, 9, 10, 11, 12 :: nat], page = 0\<rparr>
      \<lparr>clicker = js ''42'', customId = js ''next''\<rparr>
        :: nat session \<times> (nat, unit, unit) effect list))
      \<lparr>clicker = js ''42'', customId = js ''next''\<rparr>
        :: nat session \<times> (nat, unit, unit) effect list))
      \<lparr>clicker = js ''42'', customId = js ''next''\<rparr>
        :: nat session \<times> (nat, unit, unit) effect list)) = 2"
proof -
  have n: "js ''next'' \<noteq> js ''prev''" by (simp add: js_def)
  show ?thesis using n by (simp add: collect_def Let_def totalPages_div)
qed

lemma example_first_page:
  "shown (createEmbed (fst (paginateUploads (js ''42'')
      [0, 1, 2, 3, 4, 5, 6, 7, 8, 9, 10, 11 :: nat]
      :: nat session \<times> (nat, unit, unit) effect list)))
   = [0, 1, 2, 3, 4]"
  by (simp add: paginateUploads_def createEmbed_def pageSize_def Let_def)

section \<open>Statistics\<close>

lemma tryBlock_stats:
  assumes "ziplineGetStats e = Raised err" and "getUserToken s U = Some token"
  shows "tryBlock e U Stats s =
     Some (Returned (),
           [DeferReply True,
            EditReply (StatsContent (hostStats e) (ZipUnavailable (js ''Unavailable''))
              (username (case ziplineGetMe e token of
                 Raised err \<Rightarrow> \<lparr>username = Some (js ''Unknown''), role = None,
                                quota_used = Some 0, quota_max = Some 0\<rparr>
               | Returned d \<Rightarrow> d))
              (case quota_used (case ziplineGetMe e token of
                 Raised err \<Rightarrow> \<lparr>username = Some (js ''Unknown''), role = None,
                                quota_used = Some 0, quota_max = Some 0\<rparr>
               | Returned d \<Rightarrow> d) of None \<Rightarrow> 0 | Some n \<Rightarrow> n)
              (if quota_max (case ziplineGetMe e token of
                 Raised err \<Rightarrow> \<lparr>username = Some (js ''Unknown''), role = None,
                                quota_used = Some 0, quota_max = Some 0\<rparr>
               | Returned d \<Rightarrow> d) = Some 0 then None
               else quota_max (case ziplineGetMe e token of
                 Raised err \<Rightarrow> \<lparr>username = Some (js ''Unknown''), role = None,
                                quota_used = Some 0, quota_max = Some 0\<rparr>
               | Returned d \<Rightarrow> d)))],
           None, s)"
proof -
  have u: "js ''Unavailable'' \<noteq> []" by (simp add: js_def)
  show ?thesis using assms u by (simp add: Let_def)
qed

text \<open>
  C8. When \<open>ziplineGetStats\<close> throws, the \<open>stats\<close> subcommand of a user with a token
  still returns normally and edits the reply with the statistics, the service's part
  reading "Unavailable": the \<open>catch\<close> of the handler is not entered, so no error is
  logged and no error notice is sent.
\<close>

theorem stats_failure_recovered:
  assumes "ziplineGetStats e = Raised err" and "getUserToken s U = Some token"
  shows "\<exists>who used quota.
     tryBlock e U Stats s =
       Some (Returned (),
             [DeferReply True,
              EditReply (StatsContent (hostStats e) (ZipUnavailable (js ''Unavailable''))
                who used quota)],
             None, s)
     \<and> interactionCreate e U Stats s =
       Some ([DeferReply True,
              EditReply (StatsContent (hostStats e) (ZipUnavailable (js ''Unavailable''))
                who used quota)],
             None, s)"
  using tryBlock_stats[OF assms] by (simp add: interactionCreate_def)

text \<open>A service whose \<open>/api/stats\<close> does not answer, and user 42 with a token.\<close>

theorem stats_failure_recovered_witness:
  "ziplineGetStats (brokenDownloadEnv 0) = Raised FetchRejected
   \<and> getUserToken (snd (setUserToken (js ''42'') (js ''tok'') initialState)) (js ''42'')
       = Some (js ''tok'')
   \<and> (\<exists>who used quota.
         interactionCreate (brokenDownloadEnv 0) (js ''42'') Stats
           (snd (setUserToken (js ''42'') (js ''tok'') initialState))
         = Some ([DeferReply True,
                  EditReply (StatsContent () (ZipUnavailable (js ''Unavailable''))
                    who used quota)],
                 None, snd (setUserToken (js ''42'') (js ''tok'') initialState)))"
proof -
  let ?s = "snd (setUserToken (js ''42'') (js ''tok'') initialState)"
  have a: "ziplineGetStats (brokenDownloadEnv 0) = Raised FetchRejected"
    by (simp add: ziplineGetStats_def brokenDownloadEnv_def)
  have t: "js ''tok'' \<noteq> []" by (simp add: js_def)
  have b: "getUserToken ?s (js ''42'') = Some (js ''tok'')"
    using t by (simp add: getUserToken_def setUserToken_def saveTokens_def initialState_def)
  have h: "hostStats (brokenDownloadEnv 0) = ()" by simp
  show ?thesis
    using a b stats_failure_recovered[OF a b] by (simp only: h) blast
qed

section \<open>The staging file of an upload\<close>

text \<open>
  Once the upload request has an answer, whatever its status, the staging file is gone;
  when the attachment's host refuses the download, none was created.
\<close>

lemma upload_removes_file_after_response:
  assumes "downloadApi e url = DownloadResponse st Finish" and "ok st"
    and "uploadApi e (uploadHeaders token (formHeaders e) (getUserSettings s U))
           (TmpPath (dateNow e) name) = Response ust txt j"
  shows "TmpPath (dateNow e) name \<notin> tmpFiles (snd (ziplineUploadFromUrl e token url name U s))"
  using assms by (simp add: ziplineUploadFromUrl_def Let_def split: option.splits)

lemma upload_keeps_no_file_when_download_refused:
  assumes "downloadApi e url = DownloadResponse st piped" and "\<not> ok st"
  shows "ziplineUploadFromUrl e token url name U s = (Raised DownloadFailed, s)"
  using assms by (simp add: ziplineUploadFromUrl_def Let_def)

text \<open>
  The two exits that skip \<open>fs.unlinkSync\<close>: the body stream of the download fails, or the
  upload request itself rejects.
\<close>

lemma upload_leaves_file_on_stream_error:
  assumes "downloadApi e url = DownloadResponse st BodyError" and "ok st"
  shows "ziplineUploadFromUrl e token url name U s
     = (Raised StreamError, s\<lparr>tmpFiles := insert (TmpPath (dateNow e) name) (tmpFiles s)\<rparr>)"
  using assms by (simp add: ziplineUploadFromUrl_def Let_def)

lemma upload_leaves_file_when_upload_rejects:
  assumes "downloadApi e url = DownloadResponse st Finish" and "ok st"
    and "uploadApi e (uploadHeaders token (formHeaders e) (getUserSettings s U))
           (TmpPath (dateNow e) name) = Rejected"
  shows "ziplineUploadFromUrl e token url name U s
     = (Raised FetchRejected, s\<lparr>tmpFiles := insert (TmpPath (dateNow e) name) (tmpFiles s)\<rparr>)"
  using assms by (simp add: ziplineUploadFromUrl_def Let_def)

text \<open>
  C1. The claim that the staging file is absent on every exit fails on the code: when the
  attachment's host answers 200 and the body stream then fails, \<open>ziplineUploadFromUrl\<close>
  throws with the staging file still in the working directory.
\<close>

theorem staging_file_left_on_stream_error:
  "ziplineUploadFromUrl (brokenDownloadEnv 1700000000000) (js ''tok'')
     (js ''https://cdn.example/a.png'') (js ''a.png'') (js ''42'') initialState
   = (Raised StreamError,
      initialState\<lparr>tmpFiles := {TmpPath 1700000000000 (js ''a.png'')}\<rparr>)
   \<and> TmpPath 1700000000000 (js ''a.png'')
       \<in> tmpFiles (snd (ziplineUploadFromUrl (brokenDownloadEnv 1700000000000) (js ''tok'')
            (js ''https://cdn.example/a.png'') (js ''a.png'') (js ''42'') initialState))"
proof -
  have a: "downloadApi (brokenDownloadEnv 1700000000000) (js ''https://cdn.example/a.png'')
      = DownloadResponse 200 BodyError"
    by (simp add: brokenDownloadEnv_def)
  have b: "ok 200" by (simp add: ok_def)
  have c: "dateNow (brokenDownloadEnv 1700000000000) = 1700000000000"
    by (simp add: brokenDownloadEnv_def)
  have d: "tmpFiles initialState = {}" by (simp add: initialState_def)
  show ?thesis
    using upload_leaves_file_on_stream_error[OF a b, of "js ''tok''" "js ''a.png''" "js ''42''"
        initialState]
    by (simp add: c d)
qed

end
